theory Spec2Isabelle
  imports Complex_Main "HOL-Library.AList"
begin

section \<open>Tensors, feature frames and errors\<close>

text \<open>
  The notebooks use two kinds of feature tensors: node features of shape \<open>(N, d)\<close>
  (one row of \<open>d\<close> numbers per node) and the edge feature \<open>broness\<close> of shape
  \<open>(E,)\<close> (one number per edge). A tensor is the list of its rows; the entries are
  real numbers, so rounding of the 32-bit floats of the tensor library is not part of
  the model. A feature dictionary (\<open>G.ndata\<close>, \<open>G.edata\<close>, the result of a
  user-defined function) is an association list from feature names to tensors, in
  insertion order as a Python dictionary keeps it.
\<close>

type_synonym tensor1 = "real list"
type_synonym tensor2 = "real list list"
type_synonym 'c frame = "(string \<times> 'c) list"

text \<open>
  Every exception the modelled calls can raise. \<open>FeatureCountMismatch nfeats num\<close> is
  the \<open>DGLError\<close> of the traceback recorded in \<open>1_Basics.ipynb\<close>:
  "Expect number of features to match number of nodes (len(u)). Got nfeats and num
  instead.".
\<close>

datatype error =
    FeatureCountMismatch nat nat
  | InvalidVertex nat
  | InvalidEdgeArrays nat nat
  | InvalidEdge nat
  | KeyError string
  | IndexError nat
  | ShapeMismatch
  | UDFResultNotDict

definition width :: "tensor2 \<Rightarrow> nat" where
  "width t = (case t of [] \<Rightarrow> 0 | r # _ \<Rightarrow> length r)"

definition zeros :: "nat \<Rightarrow> nat \<Rightarrow> tensor2" where
  "zeros n d = replicate n (replicate d 0)"

definition ones1 :: "nat \<Rightarrow> tensor1" where
  "ones1 n = replicate n 1"


text \<open>Gathering rows by index (\<open>t[idx]\<close>); an index out of range raises.\<close>

fun gather :: "'a list \<Rightarrow> nat list \<Rightarrow> error + 'a list" where
  "gather t [] = Inr []"
| "gather t (i # is) =
     (if i < length t
      then (case gather t is of Inl e \<Rightarrow> Inl e | Inr rs \<Rightarrow> Inr (t ! i # rs))
      else Inl (IndexError i))"

text \<open>
  Writing rows by index (\<open>t[idx] = rows\<close>): row \<open>k\<close> of \<open>rows\<close> goes to position
  \<open>idx[k]\<close>, in order, so that the last write to a repeated index stays.
\<close>

fun scatter :: "'a list \<Rightarrow> nat list \<Rightarrow> 'a list \<Rightarrow> 'a list" where
  "scatter t (i # is) (r # rs) = scatter (t[i := r]) is rs"
| "scatter t _ _ = t"

section \<open>The graph object\<close>

text \<open>
  A \<open>DGLGraph\<close> as the notebooks observe it: the number of nodes (nodes are the
  consecutive integers from 0), the directed edges in the order they were added (edge
  \<open>e\<close> goes from \<open>edge_src ! e\<close> to \<open>edge_dst ! e\<close>), the node and edge feature
  dictionaries, and the messages that \<open>send\<close> has produced and \<open>recv\<close> has not yet
  consumed (each with the edge it travels on). The graph library itself is not part of
  the repository; its operations are modelled as the notebooks document them (their
  comments, recorded outputs and the recorded traceback).
\<close>

record graph =
  num_nodes :: nat
  edge_src :: "nat list"
  edge_dst :: "nat list"
  ndata :: "tensor2 frame"
  edata :: "tensor1 frame"
  msgs :: "(nat \<times> (real list) frame) list"

text \<open>\<open>dgl.DGLGraph()\<close>: the empty graph.\<close>

definition DGLGraph :: graph where
  "DGLGraph = \<lparr>num_nodes = 0, edge_src = [], edge_dst = [], ndata = [], edata = [],
     msgs = []\<rparr>"

definition number_of_nodes :: "graph \<Rightarrow> nat" where
  "number_of_nodes g = num_nodes g"

definition number_of_edges :: "graph \<Rightarrow> nat" where
  "number_of_edges g = length (edge_src g)"

text \<open>
  \<open>G.add_nodes(n)\<close>: \<open>n\<close> new nodes; existing node features get zero rows for them.
\<close>

definition add_nodes :: "graph \<Rightarrow> nat \<Rightarrow> graph" where
  "add_nodes g n =
     g\<lparr>num_nodes := num_nodes g + n,
       ndata := map (\<lambda>(k, c). (k, c @ zeros n (width c))) (ndata g)\<rparr>"

text \<open>
  The endpoint arguments of \<open>add_edge\<close>/\<open>add_edges\<close>/\<open>G.edges[u, v]\<close>: a single
  integer, a Python list or a tensor of node ids; the library turns each into an index
  array.
\<close>

datatype node_ids = PyInt nat | PyList "nat list" | Tensor "nat list"

fun toindex :: "node_ids \<Rightarrow> nat list" where
  "toindex (PyInt u) = [u]"
| "toindex (PyList us) = us"
| "toindex (Tensor us) = us"

text \<open>
  Pairing sources with destinations: arrays of equal length pair up element by element;
  otherwise an array of length one ("a single integer") is repeated against the other.
\<close>

definition edge_pairs :: "nat list \<Rightarrow> nat list \<Rightarrow> error + (nat \<times> nat) list" where
  "edge_pairs us vs =
     (if length us = length vs then Inr (zip us vs)
      else if length us = 1 then Inr (map (\<lambda>v. (hd us, v)) vs)
      else if length vs = 1 then Inr (map (\<lambda>u. (u, hd vs)) us)
      else Inl (InvalidEdgeArrays (length us) (length vs)))"

text \<open>The first endpoint of the pairs that is not a node of the graph, if any.\<close>

fun bad_vertex :: "nat \<Rightarrow> (nat \<times> nat) list \<Rightarrow> nat option" where
  "bad_vertex n [] = None"
| "bad_vertex n ((u, v) # ps) =
     (if \<not> u < n then Some u else if \<not> v < n then Some v else bad_vertex n ps)"

text \<open>
  \<open>G.add_edges(u, v)\<close>: appends one directed edge per pair, in order, after the
  existing edges; existing edge features get zero entries for the new edges. DGL
  graphs are directed and keep every edge that is added.
\<close>

definition add_edges :: "graph \<Rightarrow> node_ids \<Rightarrow> node_ids \<Rightarrow> error + graph" where
  "add_edges g u v =
     (case edge_pairs (toindex u) (toindex v) of
        Inl e \<Rightarrow> Inl e
      | Inr ps \<Rightarrow>
          (case bad_vertex (num_nodes g) ps of
             Some w \<Rightarrow> Inl (InvalidVertex w)
           | None \<Rightarrow>
               Inr (g\<lparr>edge_src := edge_src g @ map fst ps,
                      edge_dst := edge_dst g @ map snd ps,
                      edata := map (\<lambda>(k, c). (k, c @ replicate (length ps) 0)) (edata g)\<rparr>)))"

text \<open>\<open>G.add_edge(u, v)\<close>: one edge.\<close>

definition add_edge :: "graph \<Rightarrow> nat \<Rightarrow> nat \<Rightarrow> error + graph" where
  "add_edge g u v = add_edges g (PyInt u) (PyInt v)"

text \<open>Sequencing of calls that may raise: the first exception ends the cell.\<close>

definition then_do :: "error + 'a \<Rightarrow> ('a \<Rightarrow> error + 'b) \<Rightarrow> error + 'b" where
  "then_do m f = (case m of Inl e \<Rightarrow> Inl e | Inr x \<Rightarrow> f x)"

section \<open>Notebook 1: building the karate club graph\<close>

text \<open>Cell 3: \<open>G = dgl.DGLGraph(); G.add_nodes(34)\<close>.\<close>

definition cell3 :: graph where
  "cell3 = add_nodes DGLGraph 34"

text \<open>Cell 4: \<open>G.add_edge(1, 0)\<close>.\<close>

definition cell4 :: "graph \<Rightarrow> error + graph" where
  "cell4 G = add_edge G 1 0"

text \<open>
  Cells 5 and 6, the \<open>add_edges\<close> calls between the single \<open>add_edge\<close> and the
  exercise cell, each as the function of the graph it is applied to.
\<close>

definition cell5_calls :: "(graph \<Rightarrow> error + graph) list" where
  "cell5_calls =
     [\<lambda>G. add_edges G (PyList [2, 2]) (PyList [0, 1]),
      \<lambda>G. add_edges G (Tensor [3, 3, 3]) (Tensor [0, 1, 2])]"

definition cell6_calls :: "(graph \<Rightarrow> error + graph) list" where
  "cell6_calls =
     [\<lambda>G. add_edges G (PyList [4, 5]) (PyInt 0),
      \<lambda>G. add_edges G (PyInt 6) (Tensor [0, 4, 5])]"

fun run_calls :: "(graph \<Rightarrow> error + graph) list \<Rightarrow> graph \<Rightarrow> error + graph" where
  "run_calls [] G = Inr G"
| "run_calls (c # cs) G = then_do (c G) (run_calls cs)"

definition edge_list :: "(nat \<times> nat) list" where
  "edge_list =
     [(7, 0), (7, 1), (7, 2), (7, 3), (8, 0), (8, 2), (9, 2), (10, 0), (10, 4), (10, 5),
      (11, 0), (12, 0), (12, 3), (13, 0), (13, 1), (13, 2), (13, 3), (16, 5), (16, 6),
      (17, 0), (17, 1), (19, 0), (19, 1), (21, 0), (21, 1), (25, 23), (25, 24), (27, 2),
      (27, 23), (27, 24), (28, 2), (29, 23), (29, 26), (30, 1), (30, 8), (31, 0), (31, 24),
      (31, 25), (31, 28), (32, 2), (32, 8), (32, 14), (32, 15), (32, 18), (32, 20), (32, 22),
      (32, 23), (32, 29), (32, 30), (32, 31), (33, 8), (33, 9), (33, 13), (33, 14), (33, 15),
      (33, 18), (33, 19), (33, 20), (33, 22), (33, 23), (33, 26), (33, 27), (33, 28),
      (33, 29), (33, 30), (33, 31), (33, 32)]"

text \<open>
  The exercise cell: the loop appends each tuple's endpoints to \<open>src\<close> and \<open>dst\<close>,
  then one \<open>G.add_edges(src, dst)\<close>.
\<close>

fun split_edges :: "(nat \<times> nat) list \<Rightarrow> nat list \<Rightarrow> nat list \<Rightarrow> nat list \<times> nat list" where
  "split_edges [] src dst = (src, dst)"
| "split_edges (edge # rest) src dst = split_edges rest (src @ [fst edge]) (dst @ [snd edge])"

definition cell8 :: "graph \<Rightarrow> error + graph" where
  "cell8 G = (case split_edges edge_list [] [] of (src, dst) \<Rightarrow> add_edges G (PyList src) (PyList dst))"

definition after_cell5 :: "error + graph" where
  "after_cell5 = then_do (cell4 cell3) (run_calls cell5_calls)"

definition after_cell6 :: "error + graph" where
  "after_cell6 = then_do after_cell5 (run_calls cell6_calls)"

definition karate :: "error + graph" where
  "karate = then_do after_cell6 cell8"

text \<open>The graph the construction is shown to produce.\<close>

definition karate_graph :: graph where
  "karate_graph =
     \<lparr>num_nodes = 34,
      edge_src = [1, 2, 2, 3, 3, 3, 4, 5, 6, 6, 6] @ map fst edge_list,
      edge_dst = [0, 0, 1, 0, 1, 2, 0, 0, 0, 4, 5] @ map snd edge_list,
      ndata = [], edata = [], msgs = []\<rparr>"

section \<open>Node and edge features\<close>

text \<open>
  Which nodes (or edges) a feature assignment addresses: all of them (\<open>G.ndata\<close>,
  \<open>G.edata\<close>) or the ones listed (\<open>G.nodes[ids].data\<close>, \<open>G.edges[u, v].data\<close>).
\<close>

datatype selection = Every | Only "nat list"

text \<open>
  \<open>set_n_repr(data, u)\<close>, reached from every node feature assignment with the
  one-entry dictionary \<open>{key : val}\<close> (the traceback shows the call and the check):
  the number of rows of \<open>val\<close> must be the number of addressed nodes, else
  \<open>DGLError\<close>. For all nodes the column is replaced; for listed nodes the rows of the
  column are overwritten at the listed positions (a column that does not exist yet starts
  as zeros). A listed id that is not a node, or a row of another width than the
  column's, raises.
\<close>

definition set_n_repr :: "graph \<Rightarrow> string \<Rightarrow> tensor2 \<Rightarrow> selection \<Rightarrow> error + graph" where
  "set_n_repr g key val u =
     (let num = (case u of Every \<Rightarrow> number_of_nodes g | Only us \<Rightarrow> length us);
          nfeats = length val
      in if nfeats \<noteq> num then Inl (FeatureCountMismatch nfeats num)
         else (case u of
                 Every \<Rightarrow> Inr (g\<lparr>ndata := AList.update key val (ndata g)\<rparr>)
               | Only us \<Rightarrow>
                   (case bad_vertex (num_nodes g) (map (\<lambda>i. (i, i)) us) of
                      Some w \<Rightarrow> Inl (InvalidVertex w)
                    | None \<Rightarrow>
                        (let col = (case map_of (ndata g) key of
                                      None \<Rightarrow> zeros (num_nodes g) (width val)
                                    | Some c \<Rightarrow> c)
                         in if list_all (\<lambda>r. length r = width col) val
                            then Inr (g\<lparr>ndata := AList.update key (scatter col us val) (ndata g)\<rparr>)
                            else Inl ShapeMismatch))))"

text \<open>\<open>G.ndata[key] = val\<close> and \<open>G.ndata.update({key : val})\<close>.\<close>

definition ndata_setitem :: "graph \<Rightarrow> string \<Rightarrow> tensor2 \<Rightarrow> error + graph" where
  "ndata_setitem g key val = set_n_repr g key val Every"

text \<open>\<open>G.nodes[ids].data[key] = val\<close>.\<close>

definition nodes_data_setitem :: "graph \<Rightarrow> node_ids \<Rightarrow> string \<Rightarrow> tensor2 \<Rightarrow> error + graph" where
  "nodes_data_setitem g ids key val = set_n_repr g key val (Only (toindex ids))"

text \<open>
  \<open>G.ndata.pop(key)\<close>: the column, and the dictionary without the key;
  \<open>KeyError\<close> when the key is absent.
\<close>

definition ndata_pop :: "graph \<Rightarrow> string \<Rightarrow> error + (tensor2 \<times> graph)" where
  "ndata_pop g key =
     (case map_of (ndata g) key of
        None \<Rightarrow> Inl (KeyError key)
      | Some c \<Rightarrow> Inr (c, g\<lparr>ndata := AList.delete key (ndata g)\<rparr>))"

text \<open>\<open>G.predecessors(v)\<close>: the sources of the edges into \<open>v\<close>, in edge order.\<close>

definition predecessors :: "graph \<Rightarrow> nat \<Rightarrow> error + nat list" where
  "predecessors g v =
     (if v < num_nodes g
      then Inr (map fst (filter (\<lambda>(s, d). d = v) (zip (edge_src g) (edge_dst g))))
      else Inl (InvalidVertex v))"

text \<open>
  The edge ids that \<open>G.edges[u, v]\<close> addresses: for each (source, destination) pair,
  every edge from the source to the destination.
\<close>

definition edge_ids :: "graph \<Rightarrow> node_ids \<Rightarrow> node_ids \<Rightarrow> error + nat list" where
  "edge_ids g u v =
     (case edge_pairs (toindex u) (toindex v) of
        Inl e \<Rightarrow> Inl e
      | Inr ps \<Rightarrow>
          (case bad_vertex (num_nodes g) ps of
             Some w \<Rightarrow> Inl (InvalidVertex w)
           | None \<Rightarrow>
               Inr (concat (map (\<lambda>p. filter (\<lambda>e. (edge_src g ! e, edge_dst g ! e) = p)
                                        [0..<min (length (edge_src g)) (length (edge_dst g))])
                                ps))))"

text \<open>\<open>set_e_repr\<close>, the edge counterpart of \<open>set_n_repr\<close> for 1-D edge features.\<close>

definition set_e_repr :: "graph \<Rightarrow> string \<Rightarrow> tensor1 \<Rightarrow> selection \<Rightarrow> error + graph" where
  "set_e_repr g key val es =
     (let num = (case es of Every \<Rightarrow> number_of_edges g | Only eids \<Rightarrow> length eids);
          nfeats = length val
      in if nfeats \<noteq> num then Inl (FeatureCountMismatch nfeats num)
         else (case es of
                 Every \<Rightarrow> Inr (g\<lparr>edata := AList.update key val (edata g)\<rparr>)
               | Only eids \<Rightarrow>
                   (let col = (case map_of (edata g) key of
                                 None \<Rightarrow> replicate (number_of_edges g) 0
                               | Some c \<Rightarrow> c)
                    in (case filter (\<lambda>e. \<not> e < length col) eids of
                          e # _ \<Rightarrow> Inl (InvalidEdge e)
                        | [] \<Rightarrow> Inr (g\<lparr>edata := AList.update key (scatter col eids val) (edata g)\<rparr>)))))"

text \<open>\<open>G.edata[key] = val\<close>.\<close>

definition edata_setitem :: "graph \<Rightarrow> string \<Rightarrow> tensor1 \<Rightarrow> error + graph" where
  "edata_setitem g key val = set_e_repr g key val Every"

text \<open>\<open>G.edges[u, v].data[key]\<close>: the entries of the column at the addressed edges.\<close>

definition edges_data_getitem :: "graph \<Rightarrow> node_ids \<Rightarrow> node_ids \<Rightarrow> string \<Rightarrow> error + tensor1" where
  "edges_data_getitem g u v key =
     then_do (edge_ids g u v) (\<lambda>eids.
       (case map_of (edata g) key of
          None \<Rightarrow> Inl (KeyError key)
        | Some c \<Rightarrow> gather c eids))"

text \<open>\<open>G.edges[u, v].data[key] = val\<close>.\<close>

definition edges_data_setitem ::
  "graph \<Rightarrow> node_ids \<Rightarrow> node_ids \<Rightarrow> string \<Rightarrow> tensor1 \<Rightarrow> error + graph" where
  "edges_data_setitem g u v key val =
     then_do (edge_ids g u v) (\<lambda>eids. set_e_repr g key val (Only eids))"

text \<open>
  \<open>G.edges[u, v].data[key] *= c\<close>: Python reads the item, multiplies the tensor it got
  and assigns the result back to the item.
\<close>

definition edges_data_imul ::
  "graph \<Rightarrow> node_ids \<Rightarrow> node_ids \<Rightarrow> string \<Rightarrow> real \<Rightarrow> error + graph" where
  "edges_data_imul g u v key c =
     then_do (edges_data_getitem g u v key) (\<lambda>t.
       edges_data_setitem g u v key (map (\<lambda>x. x * c) t))"

section \<open>Notebook 1: the feature cells\<close>

text \<open>
  Cell 9, \<open>G.ndata['feat'] = torch.randn((34, 5))\<close>, and cell 10,
  \<open>G.ndata['wrong_feat'] = torch.randn((35, 5))\<close>; the random tensor is the argument.
  No cell of the notebooks has a \<open>try\<close>: an exception of a call is the outcome of the
  cell.
\<close>

definition cell9 :: "graph \<Rightarrow> tensor2 \<Rightarrow> error + graph" where
  "cell9 G randn = ndata_setitem G ''feat'' randn"

definition cell10 :: "graph \<Rightarrow> tensor2 \<Rightarrow> error + graph" where
  "cell10 G randn = ndata_setitem G ''wrong_feat'' randn"

text \<open>
  Cell 12: node 0's \<open>feat\<close> to zeros, nodes 2 and 3 to ones, nodes 10, 11, 12 to twos.
\<close>

definition cell12 :: "graph \<Rightarrow> error + graph" where
  "cell12 G =
     then_do (nodes_data_setitem G (PyInt 0) ''feat'' (zeros 1 5)) (\<lambda>G.
     then_do (nodes_data_setitem G (PyList [2, 3]) ''feat'' (replicate 2 (replicate 5 1))) (\<lambda>G.
       nodes_data_setitem G (Tensor [10, 11, 12]) ''feat''
         (map (map (\<lambda>x. x * 2)) (replicate 3 (replicate 5 1)))))"

text \<open>
  Cell 14: \<open>G.edata['broness'] = torch.ones((G.number_of_edges(),))\<close>, then
  \<open>G.edges[G.predecessors(0), 0].data['broness'] *= 0.5\<close>.
\<close>

definition cell14 :: "graph \<Rightarrow> error + graph" where
  "cell14 G =
     then_do (edata_setitem G ''broness'' (ones1 (number_of_edges G))) (\<lambda>G.
     then_do (predecessors G 0) (\<lambda>pred.
       edges_data_imul G (Tensor pred) (PyInt 0) ''broness'' (1 / 2)))"

section \<open>Notebook 2: message passing\<close>

text \<open>
  What a message function receives (\<open>edges.src\<close>, \<open>edges.dst\<close>, \<open>edges.data\<close>: the
  features of the source node, of the destination node and of the edge, one row per edge
  of the batch) and what a reduce function receives (\<open>nodes.data\<close>, and
  \<open>nodes.mailbox\<close>: for every node of the batch the rows of the messages delivered to
  it, under the names the message function gave them).
\<close>

record edge_batch =
  batch_src :: "tensor2 frame"
  batch_dst :: "tensor2 frame"
  batch_data :: "tensor1 frame"

record node_batch =
  batch_nodes :: "tensor2 frame"
  mailbox :: "(real list list list) frame"

text \<open>
  A user-defined function returns a feature dictionary, raises, or returns Python's
  \<open>None\<close> (a function whose body is \<open>pass\<close>).
\<close>

type_synonym udf_result = "error + tensor2 frame option"

text \<open>
  The two functions as the notebook has them: the exercise cell leaves both bodies as
  \<open>pass\<close> under comments that say what is to be written.
\<close>

definition gcn_message :: "edge_batch \<Rightarrow> udf_result" where
  "gcn_message edges = Inr None"

definition gcn_reduce :: "node_batch \<Rightarrow> udf_result" where
  "gcn_reduce nodes = Inr None"

text \<open>
  The functions the exercise asks for, after the two equations of the notebook
  (\<open>m_uv = h_u\<close>; \<open>a_v\<close> the sum of the \<open>m_uv\<close>) and its hints: the message is the
  source node's feature \<open>h\<close>; the reduce function sums the mailbox over the messages
  of each node and returns the sum as \<open>h\<close>. They are not code of the notebook.
\<close>

definition vadd :: "real list \<Rightarrow> real list \<Rightarrow> real list" where
  "vadd a b = map (\<lambda>(x, y). x + y) (zip a b)"

fun sum_rows :: "real list list \<Rightarrow> real list" where
  "sum_rows [] = []"
| "sum_rows (r # rs) = foldl vadd r rs"

definition message_source_h :: "edge_batch \<Rightarrow> udf_result" where
  "message_source_h edges =
     (case map_of (batch_src edges) ''h'' of
        None \<Rightarrow> Inl (KeyError ''h'')
      | Some h \<Rightarrow> Inr (Some [(''m'', h)]))"

definition reduce_sum :: "node_batch \<Rightarrow> udf_result" where
  "reduce_sum nodes =
     (case map_of (mailbox nodes) ''m'' of
        None \<Rightarrow> Inl (KeyError ''m'')
      | Some mb \<Rightarrow> Inr (Some [(''h'', map sum_rows mb)]))"

text \<open>
  \<open>g.edges()\<close> and \<open>g.nodes()\<close> list every edge and every node of the graph once,
  in order; the model passes their ids.
\<close>

definition edges :: "graph \<Rightarrow> nat list" where
  "edges g = [0..<number_of_edges g]"

definition nodes :: "graph \<Rightarrow> nat list" where
  "nodes g = [0..<number_of_nodes g]"

fun gather_frame :: "('a list) frame \<Rightarrow> nat list \<Rightarrow> error + ('a list) frame" where
  "gather_frame [] idx = Inr []"
| "gather_frame ((k, c) # f) idx =
     (case gather c idx of
        Inl e \<Rightarrow> Inl e
      | Inr c' \<Rightarrow> (case gather_frame f idx of Inl e \<Rightarrow> Inl e | Inr f' \<Rightarrow> Inr ((k, c') # f')))"

definition edge_batch_of :: "graph \<Rightarrow> nat list \<Rightarrow> error + edge_batch" where
  "edge_batch_of g eids =
     then_do (gather (edge_src g) eids) (\<lambda>us.
     then_do (gather (edge_dst g) eids) (\<lambda>vs.
     then_do (gather_frame (ndata g) us) (\<lambda>s.
     then_do (gather_frame (ndata g) vs) (\<lambda>d.
     then_do (gather_frame (edata g) eids) (\<lambda>e.
       Inr \<lparr>batch_src = s, batch_dst = d, batch_data = e\<rparr>)))))"

text \<open>
  \<open>g.send(edges, message_func)\<close>: with no edge nothing happens; otherwise the message
  function is called on the batch of the edges, and row \<open>i\<close> of what it returns is the
  message on the \<open>i\<close>-th edge, kept with the edge's destination until \<open>recv\<close>. The
  notebook notes that a message or reduce function "should return a feature dictionary";
  what the library does with another result is not shown anywhere in the repository, and
  the model makes it an error.
\<close>

definition send :: "graph \<Rightarrow> nat list \<Rightarrow> (edge_batch \<Rightarrow> udf_result) \<Rightarrow> error + graph" where
  "send g eids message_func =
     (if eids = [] then Inr g
      else
        then_do (gather (edge_dst g) eids) (\<lambda>vs.
        then_do (edge_batch_of g eids) (\<lambda>batch.
        then_do (message_func batch) (\<lambda>r.
          (case r of
             None \<Rightarrow> Inl UDFResultNotDict
           | Some m \<Rightarrow>
               if list_all (\<lambda>(k, c). length c = length eids) m
               then Inr (g\<lparr>msgs := msgs g @
                          map (\<lambda>i. (vs ! i, map (\<lambda>(k, c). (k, c ! i)) m)) [0..<length eids]\<rparr>)
               else Inl ShapeMismatch)))))"

text \<open>The messages waiting for node \<open>v\<close>, in the order they were sent.\<close>

definition inbox :: "graph \<Rightarrow> nat \<Rightarrow> (real list) frame list" where
  "inbox g v = map snd (filter (\<lambda>(d, m). d = v) (msgs g))"

text \<open>The mailbox of a batch of one node, from its messages.\<close>

definition mailbox_of :: "(real list) frame list \<Rightarrow> (real list list list) frame" where
  "mailbox_of ms =
     (case ms of
        [] \<Rightarrow> []
      | m # _ \<Rightarrow>
          map (\<lambda>(k, _). (k, [map (\<lambda>x. case map_of x k of None \<Rightarrow> [] | Some r \<Rightarrow> r) ms])) m)"

text \<open>
  The reduce function is called for every listed node that has messages, on the node's
  features as they are when \<open>recv\<close> starts; a node without messages is skipped. (The
  library batches nodes with equally many messages into one call; a reduce function
  treats the nodes of a batch independently, and the model calls it once per node.)
\<close>

fun reduce_nodes ::
  "graph \<Rightarrow> (node_batch \<Rightarrow> udf_result) \<Rightarrow> nat list \<Rightarrow> error + (nat \<times> tensor2 frame) list" where
  "reduce_nodes g reduce_func [] = Inr []"
| "reduce_nodes g reduce_func (v # vs) =
     (if inbox g v = [] then reduce_nodes g reduce_func vs
      else
        then_do (gather_frame (ndata g) [v]) (\<lambda>feats.
        then_do (reduce_func \<lparr>batch_nodes = feats, mailbox = mailbox_of (inbox g v)\<rparr>) (\<lambda>r.
          (case r of
             None \<Rightarrow> Inl UDFResultNotDict
           | Some upd \<Rightarrow>
               then_do (reduce_nodes g reduce_func vs) (\<lambda>rest. Inr ((v, upd) # rest))))))"

text \<open>
  Writing the result of the reduce function for node \<open>v\<close> back: each returned feature
  has one row, which becomes row \<open>v\<close> of the node feature of that name (a feature that
  does not exist yet starts as zeros).
\<close>

fun write_node :: "nat \<Rightarrow> nat \<Rightarrow> tensor2 frame \<Rightarrow> tensor2 frame \<Rightarrow> error + tensor2 frame" where
  "write_node n v [] nd = Inr nd"
| "write_node n v ((k, c) # upd) nd =
     (case c of
        [row] \<Rightarrow>
          (let col = (case map_of nd k of None \<Rightarrow> zeros n (length row) | Some col \<Rightarrow> col)
           in if v < length col \<and> length row = width col
              then write_node n v upd (AList.update k (col[v := row]) nd)
              else Inl ShapeMismatch)
      | _ \<Rightarrow> Inl ShapeMismatch)"

fun write_nodes :: "nat \<Rightarrow> (nat \<times> tensor2 frame) list \<Rightarrow> tensor2 frame \<Rightarrow> error + tensor2 frame" where
  "write_nodes n [] nd = Inr nd"
| "write_nodes n ((v, upd) # rest) nd = then_do (write_node n v upd nd) (write_nodes n rest)"

text \<open>
  \<open>g.recv(nodes, reduce_func)\<close>: reduces the messages of the listed nodes, writes the
  results into the node features and empties the mailboxes of the listed nodes.
\<close>

definition recv :: "graph \<Rightarrow> nat list \<Rightarrow> (node_batch \<Rightarrow> udf_result) \<Rightarrow> error + graph" where
  "recv g vs reduce_func =
     (case filter (\<lambda>v. \<not> v < num_nodes g) vs of
        w # _ \<Rightarrow> Inl (InvalidVertex w)
      | [] \<Rightarrow>
          then_do (reduce_nodes g reduce_func vs) (\<lambda>results.
          then_do (write_nodes (num_nodes g) results (ndata g)) (\<lambda>nd.
            Inr (g\<lparr>ndata := nd, msgs := filter (\<lambda>(d, m). d \<notin> set vs) (msgs g)\<rparr>))))"

section \<open>Notebook 2: the GCN layer and the two-layer network\<close>

text \<open>
  \<open>nn.Linear(in_feats, out_feats)\<close>: \<open>y = x W\<^sup>T + b\<close> on every row; \<open>weight\<close> has
  one row per output feature. A row of another length than \<open>in_features\<close> raises.
\<close>

record Linear =
  in_features :: nat
  weight :: tensor2
  bias :: "real list"

definition dot :: "real list \<Rightarrow> real list \<Rightarrow> real" where
  "dot a b = sum_list (map (\<lambda>(x, y). x * y) (zip a b))"

definition Linear_forward :: "Linear \<Rightarrow> tensor2 \<Rightarrow> error + tensor2" where
  "Linear_forward l x =
     (if list_all (\<lambda>r. length r = in_features l) x
      then Inr (map (\<lambda>r. map (\<lambda>(w, b). dot r w + b) (zip (weight l) (bias l))) x)
      else Inl ShapeMismatch)"

record GCN =
  linear :: Linear

text \<open>
  \<open>GCN.forward(g, inputs)\<close>. The method looks the names \<open>gcn_message\<close> and
  \<open>gcn_reduce\<close> up when it runs, so the layer is first given with the two functions
  as arguments; \<open>GCN_forward\<close> is the layer with the functions the notebook defines.
  The graph is mutated in place: the result is the returned tensor and the graph after
  the call.
\<close>

definition GCN_forward_with ::
  "(edge_batch \<Rightarrow> udf_result) \<Rightarrow> (node_batch \<Rightarrow> udf_result) \<Rightarrow> GCN \<Rightarrow> graph \<Rightarrow> tensor2
   \<Rightarrow> error + (tensor2 \<times> graph)" where
  "GCN_forward_with message_func reduce_func self g inputs =
     then_do (Linear_forward (linear self) inputs) (\<lambda>h.
     then_do (ndata_setitem g ''h'' h) (\<lambda>g.
     then_do (send g (edges g) message_func) (\<lambda>g.
     then_do (recv g (nodes g) reduce_func) (\<lambda>g.
       ndata_pop g ''h''))))"

definition GCN_forward :: "GCN \<Rightarrow> graph \<Rightarrow> tensor2 \<Rightarrow> error + (tensor2 \<times> graph)" where
  "GCN_forward = GCN_forward_with gcn_message gcn_reduce"

definition relu :: "tensor2 \<Rightarrow> tensor2" where
  "relu h = map (map (max 0)) h"

record Net =
  gcn1 :: GCN
  gcn2 :: GCN

text \<open>\<open>Net.forward(g, inputs)\<close>.\<close>

definition Net_forward_with ::
  "(edge_batch \<Rightarrow> udf_result) \<Rightarrow> (node_batch \<Rightarrow> udf_result) \<Rightarrow> Net \<Rightarrow> graph \<Rightarrow> tensor2
   \<Rightarrow> error + (tensor2 \<times> graph)" where
  "Net_forward_with message_func reduce_func self g inputs =
     then_do (GCN_forward_with message_func reduce_func (gcn1 self) g inputs) (\<lambda>(h, g).
       (let h = relu h
        in GCN_forward_with message_func reduce_func (gcn2 self) g h))"


section \<open>Notebook 2: the training loop\<close>













text \<open>
  The two cells of the notebook that bind the names of the message and reduce function:
  the exercise cell defines both (bodies \<open>pass\<close>); the last cell, where the normalizer
  is to be implemented, holds two comment lines and no statement.
\<close>

record namespace =
  bound_message :: "edge_batch \<Rightarrow> udf_result"
  bound_reduce :: "node_batch \<Rightarrow> udf_result"

definition exercise_cell :: "namespace \<Rightarrow> namespace" where
  "exercise_cell ns = ns\<lparr>bound_message := gcn_message, bound_reduce := gcn_reduce\<rparr>"

definition normalizer_cell :: "namespace \<Rightarrow> namespace" where
  "normalizer_cell ns = ns"

section \<open>What the specification says, in the terms of the model\<close>

text \<open>A graph whose edge arrays have one length and name nodes of the graph.\<close>

definition valid_edges :: "graph \<Rightarrow> bool" where
  "valid_edges g \<longleftrightarrow>
     length (edge_src g) = length (edge_dst g) \<and>
     list_all (\<lambda>u. u < num_nodes g) (edge_src g) \<and>
     list_all (\<lambda>v. v < num_nodes g) (edge_dst g)"

text \<open>
  Moreover every node feature has one row per node, every edge feature one entry per
  edge, and no message is waiting.
\<close>

definition well_formed :: "graph \<Rightarrow> bool" where
  "well_formed g \<longleftrightarrow>
     valid_edges g \<and>
     list_all (\<lambda>(k, c). length c = num_nodes g) (ndata g) \<and>
     list_all (\<lambda>(k, c). length c = length (edge_src g)) (edata g) \<and>
     msgs g = []"

text \<open>The edges into node \<open>v\<close>, and \<open>GG.in_degrees\<close> of a node.\<close>

definition in_edges :: "graph \<Rightarrow> nat \<Rightarrow> nat list" where
  "in_edges g v = filter (\<lambda>e. edge_dst g ! e = v) [0..<length (edge_src g)]"

definition in_degree :: "graph \<Rightarrow> nat \<Rightarrow> nat" where
  "in_degree g v = length (in_edges g v)"

text \<open>
  The neighbor sum of the specification: row \<open>v\<close> is the sum of \<open>h[u]\<close> over the
  edges from \<open>u\<close> into \<open>v\<close>.
\<close>

definition neighbor_sum :: "graph \<Rightarrow> tensor2 \<Rightarrow> nat \<Rightarrow> real list" where
  "neighbor_sum g h v = sum_rows (map (\<lambda>e. h ! (edge_src g ! e)) (in_edges g v))"

text \<open>
  The normalized messages of the specification: on the edge from \<open>i\<close> to \<open>j\<close> the
  source's \<open>h\<close> divided by \<open>c_ij = sqrt (d_i * d_j)\<close>, the \<open>d\<close> being in-degrees.
\<close>

definition normalized_messages :: "graph \<Rightarrow> tensor2 \<Rightarrow> tensor2" where
  "normalized_messages g h =
     map (\<lambda>e. map (\<lambda>x. x / sqrt (real (in_degree g (edge_src g ! e)) *
                                 real (in_degree g (edge_dst g ! e))))
                (h ! (edge_src g ! e)))
       [0..<length (edge_src g)]"

text \<open>
  A result of a message function carries the tensor \<open>t\<close> when it is a dictionary with
  \<open>t\<close> under some name.
\<close>

definition carries :: "udf_result \<Rightarrow> tensor2 \<Rightarrow> bool" where
  "carries r t = (case r of Inr (Some m) \<Rightarrow> list_ex (\<lambda>(k, c). c = t) m | _ \<Rightarrow> False)"

text \<open>The number of edges of a graph that a cell may have failed to build.\<close>

definition count_edges :: "error + graph \<Rightarrow> nat option" where
  "count_edges r = (case r of Inl e \<Rightarrow> None | Inr g \<Rightarrow> Some (number_of_edges g))"

text \<open>
  What one layer of the model returns for the transformed features \<open>h\<close> when the
  message and reduce functions are the ones the exercise asks for: the neighbor sum for
  a node that has an edge coming in, and the node's own row of \<open>h\<close> for a node that has
  none (\<open>recv\<close> skips it).
\<close>

definition aggregate :: "graph \<Rightarrow> tensor2 \<Rightarrow> tensor2" where
  "aggregate g h =
     map (\<lambda>v. if in_edges g v = [] then h ! v else neighbor_sum g h v) [0..<num_nodes g]"





section \<open>Concrete inputs\<close>

text \<open>
  A graph of three nodes with the edges 0 to 1, 1 to 0 and 0 to 2, a layer with one
  input and two output features, and an input tensor.
\<close>

definition tiny_graph :: graph where
  "tiny_graph = \<lparr>num_nodes = 3, edge_src = [0, 1, 0], edge_dst = [1, 0, 2],
     ndata = [], edata = [], msgs = []\<rparr>"

definition tiny_layer :: GCN where
  "tiny_layer = \<lparr>linear = \<lparr>in_features = 1, weight = [[1], [2]], bias = [0, 1]\<rparr>\<rparr>"

definition tiny_inputs :: tensor2 where
  "tiny_inputs = [[1], [2], [3]]"


text \<open>
  The transformed features of the three nodes under \<open>tiny_layer\<close>, and the batch of the
  three edges when they are stored as \<open>h\<close>.
\<close>

definition tiny_h :: tensor2 where
  "tiny_h = [[1, 3], [2, 5], [3, 7]]"

definition tiny_batch :: edge_batch where
  "tiny_batch = \<lparr>batch_src = [(''h'', [[1, 3], [2, 5], [1, 3]])],
     batch_dst = [(''h'', [[2, 5], [1, 3], [3, 7]])], batch_data = []\<rparr>"


section \<open>Lists, frames and index arrays\<close>

lemma length_scatter: "length (scatter t idx rs) = length t"
  by (induction t idx rs rule: scatter.induct) simp_all

lemma scatter_other: "i \<notin> set idx \<Longrightarrow> scatter t idx rs ! i = t ! i"
  by (induction t idx rs rule: scatter.induct) auto

lemma scatter_written:
  "distinct idx \<Longrightarrow> length rs = length idx \<Longrightarrow> \<forall>i\<in>set idx. i < length t \<Longrightarrow> j < length idx
   \<Longrightarrow> scatter t idx rs ! (idx ! j) = rs ! j"
proof (induction t idx rs arbitrary: j rule: scatter.induct)
  case (1 t i "is" r rs)
  show ?case
  proof (cases j)
    case 0
    with 1 show ?thesis by (simp add: scatter_other)
  next
    case (Suc k)
    with 1 show ?thesis by simp
  qed
qed simp_all

lemma scatter_const:
  "\<forall>i\<in>set idx. i < length t \<Longrightarrow>
   scatter t idx (replicate (length idx) c) = map (\<lambda>i. if i \<in> set idx then c else t ! i) [0..<length t]"
proof (induction idx arbitrary: t)
  case Nil
  then show ?case by (simp add: map_nth)
next
  case (Cons i idx)
  have "scatter (t[i := c]) idx (replicate (length idx) c)
        = map (\<lambda>k. if k \<in> set idx then c else t[i := c] ! k) [0..<length (t[i := c])]"
    using Cons.prems by (intro Cons.IH) simp
  then show ?case
    by (auto simp: nth_list_update)
qed

lemma gather_replicate:
  "\<forall>i\<in>set idx. i < n \<Longrightarrow> gather (replicate n c) idx = Inr (replicate (length idx) c)"
  by (induction idx) simp_all

lemma bad_vertex_None: "bad_vertex n ps = None \<longleftrightarrow> (\<forall>(u, v)\<in>set ps. u < n \<and> v < n)"
  by (induction n ps rule: bad_vertex.induct) auto

lemma bad_vertex_diag: "bad_vertex n (map (\<lambda>i. (i, i)) us) = None \<longleftrightarrow> (\<forall>i\<in>set us. i < n)"
  by (auto simp: bad_vertex_None)

lemma map_of_update: "map_of (AList.update k v al) k' = (if k' = k then Some v else map_of al k')"
  by (simp add: update_conv')

lemma filter_all_false: "(\<forall>x\<in>set xs. \<not> P x) \<Longrightarrow> filter P xs = []"
  by (induction xs) auto

lemma edge_pairs_single: "edge_pairs us [v] = Inr (map (\<lambda>u. (u, v)) us)"
  by (cases us rule: list.exhaust; cases "tl us") (auto simp: edge_pairs_def)

lemma edges_into:
  assumes "length src = length dst"
  shows "set (concat (map (\<lambda>p. filter (\<lambda>e. (src ! e, dst ! e) = p) [0..<length src])
           (map (\<lambda>u. (u, v)) (map fst (filter (\<lambda>(s, d). d = v) (zip src dst))))))
         = {e. e < length src \<and> dst ! e = v}"
proof -
  have "\<And>e. e < length src \<Longrightarrow> dst ! e = v \<Longrightarrow>
          (src ! e, v) \<in> set (filter (\<lambda>(s, d). d = v) (zip src dst))"
    using assms by (auto simp: set_zip)
  then show ?thesis
    by (auto simp: image_iff)
qed

section \<open>Notebook 1: the graph that is built\<close>

lemma karate_eval: "karate = Inr karate_graph"
  by code_simp

lemma valid_edges_karate: "valid_edges karate_graph"
  by code_simp

text \<open>
  C4 (as amended). The construction cells build a graph of exactly 34 nodes and exactly
  78 directed edges: 34 nodes after \<open>add_nodes(34)\<close>, one edge after the single
  \<open>add_edge\<close>, eleven after the four \<open>add_edges\<close> calls of the next two cells (which
  add ten edges), and 78 after the \<open>add_edges\<close> over the 67 tuples of \<open>edge_list\<close>.
\<close>

theorem karate_34_nodes_78_edges:
  "number_of_nodes cell3 = 34 \<and> count_edges (cell4 cell3) = Some 1 \<and>
   length (cell5_calls @ cell6_calls) = 4 \<and> count_edges after_cell5 = Some 6 \<and>
   count_edges after_cell6 = Some (1 + 10) \<and>
   length edge_list = 67 \<and>
   karate = Inr karate_graph \<and> number_of_nodes karate_graph = 34 \<and>
   number_of_edges karate_graph = 78"
  by code_simp

text \<open>
  C4 as stated has three intermediate \<open>add_edges\<close> calls that add five edges; the
  notebook has four, and they take the graph from one edge to eleven.
\<close>

theorem three_calls_five_edges_counterexample:
  "\<not> (length (cell5_calls @ cell6_calls) = 3 \<and> count_edges after_cell6 = Some (1 + 5))"
  by code_simp

section \<open>Notebook 1: node features\<close>

text \<open>
  C7. Assigning a tensor to \<open>G.ndata[key]\<close> has one failure: when the number of rows
  of the tensor is not the number of nodes the library's \<open>DGLError\<close> with the two
  numbers is raised, and no graph results, so nothing is truncated or padded; otherwise
  the tensor becomes the feature. No cell catches the exception: it is the outcome of
  the cell, as of cell 10 on the graph of 34 nodes with a tensor of 35 rows.
\<close>

theorem mismatched_feature_raises:
  "ndata_setitem g key val =
     (if length val = number_of_nodes g
      then Inr (g\<lparr>ndata := AList.update key val (ndata g)\<rparr>)
      else Inl (FeatureCountMismatch (length val) (number_of_nodes g)))"
  by (simp add: ndata_setitem_def set_n_repr_def)

theorem mismatched_feature_raises_witness:
  "cell10 karate_graph (zeros 35 5) = Inl (FeatureCountMismatch 35 34)"
  using mismatched_feature_raises [of karate_graph "''wrong_feat''" "zeros 35 5"]
  by (simp add: cell10_def zeros_def number_of_nodes_def karate_graph_def)

text \<open>
  C8. Assigning \<open>val\<close> to \<open>G.nodes[I].data[key]\<close>, for distinct node ids \<open>I\<close> and a
  tensor with one row per listed node and rows as wide as the feature's: the call
  succeeds, row \<open>I[j]\<close> of the feature becomes \<open>val[j]\<close>, every row outside \<open>I\<close>
  stays, every other feature stays, and nothing but the node features changes.
\<close>

theorem partial_assignment_frame:
  assumes col: "map_of (ndata g) key = Some col"
    and len: "length col = num_nodes g"
    and dist: "distinct (toindex I)"
    and inr: "\<forall>i\<in>set (toindex I). i < num_nodes g"
    and rows: "length val = length (toindex I)"
    and shape: "list_all (\<lambda>r. length r = width col) val"
  shows "\<exists>g' col'. nodes_data_setitem g I key val = Inr g' \<and>
           map_of (ndata g') key = Some col' \<and> length col' = length col \<and>
           (\<forall>j<length (toindex I). col' ! (toindex I ! j) = val ! j) \<and>
           (\<forall>i<num_nodes g. i \<notin> set (toindex I) \<longrightarrow> col' ! i = col ! i) \<and>
           (\<forall>k. k \<noteq> key \<longrightarrow> map_of (ndata g') k = map_of (ndata g) k) \<and>
           g' = g\<lparr>ndata := ndata g'\<rparr>"
proof -
  let ?col' = "scatter col (toindex I) val"
  let ?g' = "g\<lparr>ndata := AList.update key ?col' (ndata g)\<rparr>"
  have bv: "bad_vertex (num_nodes g) (map (\<lambda>i. (i, i)) (toindex I)) = None"
    using inr by (simp add: bad_vertex_diag)
  have run: "nodes_data_setitem g I key val = Inr ?g'"
    using col rows shape
    by (simp add: nodes_data_setitem_def set_n_repr_def bv)
  have written: "\<forall>j<length (toindex I). ?col' ! (toindex I ! j) = val ! j"
    using dist rows inr len by (simp add: scatter_written)
  have kept: "\<forall>i<num_nodes g. i \<notin> set (toindex I) \<longrightarrow> ?col' ! i = col ! i"
    by (simp add: scatter_other)
  have others: "\<forall>k. k \<noteq> key \<longrightarrow> map_of (ndata ?g') k = map_of (ndata g) k"
    by (simp add: map_of_update)
  have "map_of (ndata ?g') key = Some ?col'"
    by (simp add: map_of_update)
  with run written kept others show ?thesis
    by (simp add: length_scatter)
qed

theorem partial_assignment_frame_witness:
  "\<exists>g' col'. nodes_data_setitem (karate_graph\<lparr>ndata := [(''feat'', zeros 34 5), (''other'', zeros 34 3)]\<rparr>)
        (PyList [2, 3]) ''feat'' [[1, 1, 1, 1, 1], [2, 2, 2, 2, 2]] = Inr g' \<and>
     map_of (ndata g') ''feat'' = Some col' \<and>
     col' ! 2 = [1, 1, 1, 1, 1] \<and> col' ! 3 = [2, 2, 2, 2, 2] \<and> col' ! 4 = [0, 0, 0, 0, 0] \<and>
     map_of (ndata g') ''other'' = Some (zeros 34 3)"
proof -
  let ?g = "karate_graph\<lparr>ndata := [(''feat'', zeros 34 5), (''other'', zeros 34 3)]\<rparr>"
  let ?val = "[[1, 1, 1, 1, 1], [2, 2, 2, 2, 2 :: real]]"
  have n: "num_nodes karate_graph = 34"
    by (simp add: karate_graph_def)
  have w: "width (zeros 34 5) = 5"
    by (simp add: width_def zeros_def eval_nat_numeral)
  have z: "zeros 34 5 ! 4 = [0, 0, 0, 0, 0]"
    by (simp add: zeros_def eval_nat_numeral)
  have h1: "map_of (ndata ?g) ''feat'' = Some (zeros 34 5)"
    by simp
  have h2: "length (zeros 34 5) = num_nodes ?g"
    by (simp add: n zeros_def)
  have h3: "distinct (toindex (PyList [2, 3]))"
    by simp
  have h4: "\<forall>i\<in>set (toindex (PyList [2, 3])). i < num_nodes ?g"
    by (simp add: n)
  have h5: "length ?val = length (toindex (PyList [2, 3]))"
    by simp
  have h6: "list_all (\<lambda>r. length r = width (zeros 34 5)) ?val"
    by (simp add: w)
  from partial_assignment_frame [OF h1 h2 h3 h4 h5 h6]
  obtain g' col' where r: "nodes_data_setitem ?g (PyList [2, 3]) ''feat'' ?val = Inr g'"
      "map_of (ndata g') ''feat'' = Some col'"
      "\<forall>j<length (toindex (PyList [2, 3])). col' ! (toindex (PyList [2, 3]) ! j) = ?val ! j"
      "\<forall>i<num_nodes ?g. i \<notin> set (toindex (PyList [2, 3])) \<longrightarrow> col' ! i = zeros 34 5 ! i"
      "\<forall>k. k \<noteq> ''feat'' \<longrightarrow> map_of (ndata g') k = map_of (ndata ?g) k"
    by blast
  have "col' ! 2 = [1, 1, 1, 1, 1]"
    using r(3) [rule_format, of 0] by simp
  moreover have "col' ! 3 = [2, 2, 2, 2, 2]"
    using r(3) [rule_format, of 1] by simp
  moreover have "col' ! 4 = [0, 0, 0, 0, 0]"
    using r(4) [rule_format, of 4] by (simp add: n z)
  moreover from r(5) have "map_of (ndata g') ''other'' = Some (zeros 34 3)"
    by simp
  ultimately show ?thesis
    using r(1,2) by blast
qed

text \<open>
  The model of cell 12 changes the rows the notebook's printout shows changed: on a
  feature whose 34 rows are all nines, row 0 becomes zeros, rows 2 and 3 ones, rows 10,
  11 and 12 twos, and the other rows stay.
\<close>

lemma cell12_recorded_pattern:
  "cell12 (karate_graph\<lparr>ndata := [(''feat'', replicate 34 (replicate 5 9))]\<rparr>)
   = Inr (karate_graph\<lparr>ndata := [(''feat'',
       [replicate 5 0, replicate 5 9, replicate 5 1, replicate 5 1] @ replicate 6 (replicate 5 9) @
       replicate 3 (replicate 5 2) @ replicate 21 (replicate 5 9))]\<rparr>)"
  by code_simp

section \<open>Notebook 1: the edge feature\<close>

text \<open>
  The model of cell 14 on the graph of the notebook gives the tensor the notebook
  printed.
\<close>

lemma cell14_recorded_output:
  "then_do karate cell14 = Inr (karate_graph\<lparr>edata := [(''broness'',
     [1/2, 1/2, 1, 1/2, 1, 1, 1/2, 1/2, 1/2, 1, 1, 1/2, 1, 1, 1, 1/2, 1, 1, 1/2, 1, 1,
      1/2, 1/2, 1, 1/2] @ replicate 5 1 @ [1/2, 1, 1/2, 1, 1/2] @ replicate 11 1 @ [1/2] @
     replicate 31 1)]\<rparr>)"
  unfolding karate_eval by code_simp

text \<open>
  C9. On every graph with valid edges and a node 0, so on the graph of the notebook:
  after cell 14 (\<open>broness\<close> set to ones, then the edges from the predecessors of node 0
  into node 0 multiplied by 0.5) the cell has succeeded, the edges are as before, and
  the \<open>broness\<close> of an edge is 1/2 when its destination is node 0 and 1 otherwise.
\<close>

theorem broness_half_into_node0:
  assumes wf: "valid_edges g" and n0: "0 < num_nodes g"
  shows "\<exists>g'. cell14 g = Inr g' \<and> edge_src g' = edge_src g \<and> edge_dst g' = edge_dst g \<and>
           map_of (edata g') ''broness'' = Some (map (\<lambda>d. if d = 0 then 1 / 2 else 1) (edge_dst g'))"
proof -
  let ?m = "length (edge_src g)"
  let ?g1 = "g\<lparr>edata := AList.update ''broness'' (replicate ?m 1) (edata g)\<rparr>"
  let ?ps = "map fst (filter (\<lambda>(s, d). d = 0) (zip (edge_src g) (edge_dst g)))"
  let ?eids = "concat (map (\<lambda>p. filter (\<lambda>e. (edge_src g ! e, edge_dst g ! e) = p) [0..<?m])
                 (map (\<lambda>u. (u, 0)) ?ps))"
  let ?col = "map (\<lambda>i. if i \<in> set ?eids then 1 / 2 else (1::real)) [0..<?m]"
  let ?g2 = "?g1\<lparr>edata := AList.update ''broness'' ?col (edata ?g1)\<rparr>"
  from wf have len: "length (edge_dst g) = ?m"
    and srcs: "\<forall>u\<in>set (edge_src g). u < num_nodes g"
    by (simp_all add: valid_edges_def list_all_iff)
  have s1: "edata_setitem g ''broness'' (ones1 (number_of_edges g)) = Inr ?g1"
    by (simp add: edata_setitem_def set_e_repr_def ones1_def number_of_edges_def)
  have s2: "predecessors ?g1 0 = Inr ?ps"
    using n0 by (simp add: predecessors_def)
  have "set ?ps \<subseteq> set (edge_src g)"
    by (auto dest: set_zip_leftD)
  with srcs n0 have bv: "bad_vertex (num_nodes g) (map (\<lambda>u. (u, 0)) ?ps) = None"
    unfolding bad_vertex_None by auto
  have ids: "edge_ids ?g1 (Tensor ?ps) (PyInt 0) = Inr ?eids"
    using bv by (simp add: edge_ids_def edge_pairs_single len)
  have eset: "set ?eids = {e. e < ?m \<and> edge_dst g ! e = 0}"
    using edges_into [of "edge_src g" "edge_dst g" 0] len by simp
  then have inr: "\<forall>e\<in>set ?eids. e < ?m"
    by blast
  have got: "edges_data_getitem ?g1 (Tensor ?ps) (PyInt 0) ''broness'' = Inr (replicate (length ?eids) 1)"
    using inr unfolding edges_data_getitem_def ids then_do_def
    by (simp add: map_of_update gather_replicate)
  have nobad: "filter (\<lambda>e. \<not> e < ?m) ?eids = []"
    using inr by (intro filter_all_false) simp
  have sc: "scatter (replicate ?m 1) ?eids (replicate (length ?eids) (1 / 2)) = ?col"
    using inr scatter_const [of ?eids "replicate ?m (1::real)" "1 / 2"] by (simp cong: map_cong)
  have put: "edges_data_setitem ?g1 (Tensor ?ps) (PyInt 0) ''broness'' (replicate (length ?eids) (1 / 2))
             = Inr ?g2"
    unfolding edges_data_setitem_def ids then_do_def
    using nobad sc by (simp add: set_e_repr_def map_of_update number_of_edges_def)
  have run: "cell14 g = Inr ?g2"
    unfolding cell14_def s1 then_do_def
    by (simp add: s2 edges_data_imul_def got then_do_def put del: filter_concat map_map)
  have "?col = map (\<lambda>d. if d = 0 then 1 / 2 else 1) (edge_dst g)"
    unfolding eset using len by (intro nth_equalityI) simp_all
  then have "map_of (edata ?g2) ''broness'' = Some (map (\<lambda>d. if d = 0 then 1 / 2 else 1) (edge_dst ?g2))"
    by (simp add: map_of_update)
  with run show ?thesis
    by simp
qed

theorem broness_half_into_node0_witness:
  "valid_edges karate_graph \<and> 0 < num_nodes karate_graph \<and>
   (\<exists>g'. then_do karate cell14 = Inr g' \<and> edge_dst g' = edge_dst karate_graph \<and>
      map_of (edata g') ''broness'' =
        Some (map (\<lambda>d. if d = 0 then 1 / 2 else 1) (edge_dst karate_graph)))"
proof -
  have n: "0 < num_nodes karate_graph"
    by (simp add: karate_graph_def)
  from broness_half_into_node0 [OF valid_edges_karate n] valid_edges_karate n show ?thesis
    unfolding karate_eval then_do_def by auto
qed


section \<open>Message passing: what a layer leaves on the graph\<close>







lemma tiny_forward:
  "GCN_forward_with message_source_h reduce_sum tiny_layer tiny_graph tiny_inputs
   = Inr ([[2, 5], [1, 3], [1, 3]], tiny_graph)"
  by code_simp


lemma tiny_batch_eval:
  "edge_batch_of (tiny_graph\<lparr>ndata := [(''h'', tiny_h)]\<rparr>) (edges tiny_graph) = Inr tiny_batch"
  by code_simp






section \<open>Message passing: the layer with the functions of the exercise\<close>

lemma gather_ok: "\<forall>i\<in>set idx. i < length t \<Longrightarrow> gather t idx = Inr (map ((!) t) idx)"
  by (induction idx) simp_all

lemma gather_frame_ok:
  "\<forall>(k, c)\<in>set f. \<forall>i\<in>set idx. i < length c \<Longrightarrow>
   gather_frame f idx = Inr (map (\<lambda>(k, c). (k, map ((!) c) idx)) f)"
  by (induction f idx rule: gather_frame.induct) (auto simp: gather_ok)

lemma map_of_map_frame: "map_of (map (\<lambda>(k, c). (k, F c)) f) k = map_option F (map_of f k)"
  by (induction f) auto

lemma length_foldl_vadd:
  "length r = w \<Longrightarrow> \<forall>x\<in>set rs. length x = w \<Longrightarrow> length (foldl vadd r rs) = w"
  by (induction rs arbitrary: r) (simp_all add: vadd_def)

lemma length_sum_rows:
  "rs \<noteq> [] \<Longrightarrow> \<forall>x\<in>set rs. length x = w \<Longrightarrow> length (sum_rows rs) = w"
  by (cases rs) (simp_all add: length_foldl_vadd)

lemma Linear_forward_shape:
  assumes "Linear_forward l x = Inr h"
  shows "length h = length x \<and> (\<forall>r\<in>set h. length r = min (length (weight l)) (length (bias l)))"
  using assms by (auto simp: Linear_forward_def split: if_splits)

lemma width_rows: "h \<noteq> [] \<Longrightarrow> \<forall>r\<in>set h. length r = w \<Longrightarrow> width h = w"
  by (cases h) (simp_all add: width_def)

lemma send_exercise:
  assumes ve: "valid_edges g"
    and nd: "\<forall>(k, c)\<in>set (ndata g). length c = num_nodes g"
    and ed: "\<forall>(k, c)\<in>set (edata g). length c = length (edge_src g)"
    and h: "map_of (ndata g) ''h'' = Some h"
  shows "send g (edges g) message_source_h =
         Inr (g\<lparr>msgs := msgs g @ map (\<lambda>e. (edge_dst g ! e, [(''m'', h ! (edge_src g ! e))]))
                                    [0..<length (edge_src g)]\<rparr>)"
proof (cases "length (edge_src g) = 0")
  case True
  then show ?thesis
    by (simp add: send_def edges_def number_of_edges_def)
next
  case False
  let ?m = "length (edge_src g)"
  from ve have len: "length (edge_dst g) = ?m"
    and srcs: "\<forall>u\<in>set (edge_src g). u < num_nodes g"
    and dsts: "\<forall>u\<in>set (edge_dst g). u < num_nodes g"
    by (simp_all add: valid_edges_def list_all_iff)
  have ne: "edges g \<noteq> []"
    using False by (simp add: edges_def number_of_edges_def)
  have g1: "gather (edge_src g) (edges g) = Inr (edge_src g)"
    by (simp add: gather_ok edges_def number_of_edges_def map_nth)
  have "gather (edge_dst g) [0..<length (edge_dst g)] = Inr (edge_dst g)"
    by (simp add: gather_ok map_nth)
  then have g2: "gather (edge_dst g) (edges g) = Inr (edge_dst g)"
    by (simp add: edges_def number_of_edges_def len)
  have f1: "gather_frame (ndata g) (edge_src g)
            = Inr (map (\<lambda>(k, c). (k, map ((!) c) (edge_src g))) (ndata g))"
    using nd srcs by (intro gather_frame_ok) auto
  have f2: "gather_frame (ndata g) (edge_dst g)
            = Inr (map (\<lambda>(k, c). (k, map ((!) c) (edge_dst g))) (ndata g))"
    using nd dsts by (intro gather_frame_ok) auto
  have f3: "gather_frame (edata g) (edges g)
            = Inr (map (\<lambda>(k, c). (k, map ((!) c) (edges g))) (edata g))"
    using ed by (intro gather_frame_ok) (auto simp: edges_def number_of_edges_def)
  have b: "edge_batch_of g (edges g) =
           Inr \<lparr>batch_src = map (\<lambda>(k, c). (k, map ((!) c) (edge_src g))) (ndata g),
                batch_dst = map (\<lambda>(k, c). (k, map ((!) c) (edge_dst g))) (ndata g),
                batch_data = map (\<lambda>(k, c). (k, map ((!) c) (edges g))) (edata g)\<rparr>"
    by (simp add: edge_batch_of_def g1 g2 f1 f2 f3 then_do_def)
  have m: "message_source_h \<lparr>batch_src = map (\<lambda>(k, c). (k, map ((!) c) (edge_src g))) (ndata g),
                batch_dst = map (\<lambda>(k, c). (k, map ((!) c) (edge_dst g))) (ndata g),
                batch_data = map (\<lambda>(k, c). (k, map ((!) c) (edges g))) (edata g)\<rparr>
           = Inr (Some [(''m'', map ((!) h) (edge_src g))])"
    by (simp add: message_source_h_def map_of_map_frame h)
  have le: "length (edges g) = ?m"
    by (simp add: edges_def number_of_edges_def)
  have rows: "map (\<lambda>i. (edge_dst g ! i, map (\<lambda>(k, c). (k, c ! i)) [(''m'', map ((!) h) (edge_src g))]))
                [0..<?m]
              = map (\<lambda>e. (edge_dst g ! e, [(''m'', h ! (edge_src g ! e))])) [0..<?m]"
    by simp
  show ?thesis
    unfolding send_def using ne
    by (simp add: g2 b m then_do_def le rows)
qed

lemma scatter_map_written:
  assumes "distinct idx" and "i \<in> set idx" and "\<forall>k\<in>set idx. k < length t"
  shows "scatter t idx (map S idx) ! i = S i"
proof -
  from assms(2) obtain j where j: "j < length idx" "idx ! j = i"
    by (auto simp: in_set_conv_nth)
  from scatter_written [OF assms(1) _ assms(3) j(1), of "map S idx"] j show ?thesis
    by simp
qed

lemma width_list_update:
  "v < length col \<Longrightarrow> length row = width col \<Longrightarrow> width (col[v := row]) = width col"
  by (cases col; cases v) (simp_all add: width_def)

lemma write_nodes_h:
  assumes "map_of nd ''h'' = Some col" and "\<forall>v\<in>set vs. v < length col"
    and "\<forall>v\<in>set vs. length (S v) = width col"
  shows "write_nodes n (map (\<lambda>v. (v, [(''h'', [S v])])) vs) nd
         = Inr (AList.update ''h'' (scatter col vs (map S vs)) nd)"
  using assms
proof (induction vs arbitrary: col nd)
  case Nil
  then show ?case by (simp add: update_triv)
next
  case (Cons v vs)
  let ?col = "col[v := S v]"
  let ?nd = "AList.update ''h'' ?col nd"
  from Cons.prems have ok: "v < length col" "length (S v) = width col"
    by simp_all
  then have w: "width ?col = width col"
    by (simp add: width_list_update)
  have one: "write_node n v [(''h'', [S v])] nd = Inr ?nd"
    using Cons.prems(1) ok by simp
  have "write_nodes n (map (\<lambda>v. (v, [(''h'', [S v])])) vs) ?nd
        = Inr (AList.update ''h'' (scatter ?col vs (map S vs)) ?nd)"
    using Cons.prems w by (intro Cons.IH) (simp_all add: map_of_update)
  then show ?case
    by (simp add: one then_do_def update_last del: write_node.simps)
qed

lemma inbox_exercise:
  assumes "msgs g = map (\<lambda>e. (edge_dst g ! e, [(''m'', h ! (edge_src g ! e))])) [0..<length (edge_src g)]"
  shows "inbox g v = map (\<lambda>e. [(''m'', h ! (edge_src g ! e))]) (in_edges g v)"
  by (simp add: inbox_def assms filter_map in_edges_def comp_def)

lemma reduce_sum_mailbox:
  assumes "ies \<noteq> []"
  shows "reduce_sum \<lparr>batch_nodes = feats,
            mailbox = mailbox_of (map (\<lambda>e. [(''m'', h ! (src ! e))]) ies)\<rparr>
         = Inr (Some [(''h'', [sum_rows (map (\<lambda>e. h ! (src ! e)) ies)])])"
  using assms by (cases ies) (simp_all add: reduce_sum_def mailbox_of_def comp_def)

lemma reduce_nodes_exercise:
  assumes ms: "msgs g = map (\<lambda>e. (edge_dst g ! e, [(''m'', h ! (edge_src g ! e))])) [0..<length (edge_src g)]"
    and nd: "\<forall>(k, c)\<in>set (ndata g). length c = num_nodes g"
  shows "\<forall>v\<in>set vs. v < num_nodes g \<Longrightarrow>
         reduce_nodes g reduce_sum vs
         = Inr (map (\<lambda>v. (v, [(''h'', [neighbor_sum g h v])])) (filter (\<lambda>v. in_edges g v \<noteq> []) vs))"
proof (induction vs)
  case Nil
  then show ?case by simp
next
  case (Cons v vs)
  have ib: "inbox g v = map (\<lambda>e. [(''m'', h ! (edge_src g ! e))]) (in_edges g v)"
    by (rule inbox_exercise [OF ms])
  show ?case
  proof (cases "in_edges g v = []")
    case True
    with Cons ib show ?thesis by simp
  next
    case False
    have gf: "gather_frame (ndata g) [v] = Inr (map (\<lambda>(k, c). (k, map ((!) c) [v])) (ndata g))"
      using nd Cons.prems by (intro gather_frame_ok) auto
    from False ib have ne: "inbox g v \<noteq> []"
      by simp
    from Cons have rest: "reduce_nodes g reduce_sum vs
         = Inr (map (\<lambda>v. (v, [(''h'', [neighbor_sum g h v])])) (filter (\<lambda>v. in_edges g v \<noteq> []) vs))"
      by simp
    show ?thesis
      using ne False
      by (simp add: gf then_do_def rest neighbor_sum_def)
         (simp add: ib reduce_sum_mailbox)
  qed
qed

lemma recv_exercise:
  assumes ve: "valid_edges g"
    and nd: "\<forall>(k, c)\<in>set (ndata g). length c = num_nodes g"
    and hcol: "map_of (ndata g) ''h'' = Some h"
    and rows: "\<forall>r\<in>set h. length r = w"
    and ms: "msgs g = map (\<lambda>e. (edge_dst g ! e, [(''m'', h ! (edge_src g ! e))])) [0..<length (edge_src g)]"
  shows "recv g (nodes g) reduce_sum
         = Inr (g\<lparr>ndata := AList.update ''h'' (aggregate g h) (ndata g), msgs := []\<rparr>)"
proof -
  let ?n = "num_nodes g"
  let ?vs = "filter (\<lambda>v. in_edges g v \<noteq> []) [0..<?n]"
  let ?S = "neighbor_sum g h"
  from ve have len: "length (edge_dst g) = length (edge_src g)"
    and srcs: "\<forall>u\<in>set (edge_src g). u < ?n"
    and dsts: "\<forall>u\<in>set (edge_dst g). u < ?n"
    by (simp_all add: valid_edges_def list_all_iff)
  from hcol nd have lh: "length h = ?n"
    by (auto dest: map_of_SomeD)
  have a: "filter (\<lambda>v. \<not> v < ?n) (nodes g) = []"
    by (simp add: nodes_def number_of_nodes_def)
  have b: "reduce_nodes g reduce_sum (nodes g) = Inr (map (\<lambda>v. (v, [(''h'', [?S v])])) ?vs)"
    unfolding nodes_def number_of_nodes_def
    by (rule reduce_nodes_exercise [OF ms nd]) simp
  have wd: "\<forall>v\<in>set ?vs. length (?S v) = width h"
  proof
    fix v assume v: "v \<in> set ?vs"
    then have "h \<noteq> []" using lh by auto
    then have wh: "width h = w" using rows by (rule width_rows)
    have "\<forall>x\<in>set (map (\<lambda>e. h ! (edge_src g ! e)) (in_edges g v)). length x = w"
      using rows srcs lh by (auto simp: in_edges_def)
    with v have "length (?S v) = w"
      unfolding neighbor_sum_def by (intro length_sum_rows) simp_all
    with wh show "length (?S v) = width h" by simp
  qed
  have c: "write_nodes ?n (map (\<lambda>v. (v, [(''h'', [?S v])])) ?vs) (ndata g)
           = Inr (AList.update ''h'' (scatter h ?vs (map ?S ?vs)) (ndata g))"
    using hcol wd lh by (intro write_nodes_h) simp_all
  have d: "scatter h ?vs (map ?S ?vs) = aggregate g h"
  proof (rule nth_equalityI)
    show "length (scatter h ?vs (map ?S ?vs)) = length (aggregate g h)"
      by (simp add: length_scatter lh aggregate_def)
  next
    fix i assume "i < length (scatter h ?vs (map ?S ?vs))"
    then have i: "i < ?n" by (simp add: length_scatter lh)
    show "scatter h ?vs (map ?S ?vs) ! i = aggregate g h ! i"
    proof (cases "in_edges g i = []")
      case True
      then have "i \<notin> set ?vs" by simp
      then show ?thesis
        using i True by (simp add: scatter_other aggregate_def)
    next
      case False
      have "distinct ?vs" by simp
      moreover from False i have "i \<in> set ?vs" by simp
      moreover have "\<forall>k\<in>set ?vs. k < length h" using lh by simp
      ultimately have "scatter h ?vs (map ?S ?vs) ! i = ?S i"
        by (rule scatter_map_written)
      then show ?thesis
        using i False by (simp add: aggregate_def)
    qed
  qed
  have e: "filter (\<lambda>(d, m). d \<notin> set (nodes g)) (msgs g) = []"
    using dsts len by (auto simp: ms nodes_def number_of_nodes_def filter_empty_conv)
  show ?thesis
    unfolding recv_def a by (simp add: b c d e then_do_def)
qed

lemma update_all:
  "\<forall>(k, c)\<in>set al. P k c \<Longrightarrow> P k0 v \<Longrightarrow> \<forall>(k, c)\<in>set (AList.update k0 v al). P k c"
  by (induction al) auto

lemma aggregate_cong:
  "num_nodes g' = num_nodes g \<Longrightarrow> edge_src g' = edge_src g \<Longrightarrow> edge_dst g' = edge_dst g
   \<Longrightarrow> aggregate g' h = aggregate g h"
  by (simp add: aggregate_def in_edges_def neighbor_sum_def)

lemma forward_exercise:
  assumes wf: "well_formed g"
    and rows: "length inputs = num_nodes g"
    and lin: "Linear_forward (linear self) inputs = Inr h"
  shows "GCN_forward_with message_source_h reduce_sum self g inputs
         = Inr (aggregate g h, g\<lparr>ndata := AList.delete ''h'' (ndata g)\<rparr>)"
proof -
  let ?g1 = "g\<lparr>ndata := AList.update ''h'' h (ndata g)\<rparr>"
  let ?sent = "map (\<lambda>e. (edge_dst g ! e, [(''m'', h ! (edge_src g ! e))])) [0..<length (edge_src g)]"
  let ?g2 = "?g1\<lparr>msgs := ?sent\<rparr>"
  let ?g3 = "?g2\<lparr>ndata := AList.update ''h'' (aggregate g h) (ndata ?g2), msgs := []\<rparr>"
  from wf have ve: "valid_edges g"
    and nd: "\<forall>(k, c)\<in>set (ndata g). length c = num_nodes g"
    and ed: "\<forall>(k, c)\<in>set (edata g). length c = length (edge_src g)"
    and nomsg: "msgs g = []"
    by (simp_all add: well_formed_def list_all_iff)
  from Linear_forward_shape [OF lin] rows
  have lh: "length h = num_nodes g"
    and wh: "\<forall>r\<in>set h. length r = min (length (weight (linear self))) (length (bias (linear self)))"
    by simp_all
  have s1: "ndata_setitem g ''h'' h = Inr ?g1"
    using lh by (simp add: ndata_setitem_def set_n_repr_def number_of_nodes_def)
  have ve1: "valid_edges ?g1"
    using ve by (simp add: valid_edges_def)
  have "\<forall>(k, c)\<in>set (AList.update ''h'' h (ndata g)). length c = num_nodes g"
    by (rule update_all [OF nd]) (simp add: lh)
  then have nd1: "\<forall>(k, c)\<in>set (ndata ?g1). length c = num_nodes ?g1"
    by simp
  have ed1: "\<forall>(k, c)\<in>set (edata ?g1). length c = length (edge_src ?g1)"
    using ed by simp
  have h1: "map_of (ndata ?g1) ''h'' = Some h"
    by (simp add: map_of_update)
  have s2: "send ?g1 (edges ?g1) message_source_h = Inr ?g2"
    using send_exercise [OF ve1 nd1 ed1 h1] nomsg by simp
  have ve2: "valid_edges ?g2"
    using ve by (simp add: valid_edges_def)
  have nd2: "\<forall>(k, c)\<in>set (ndata ?g2). length c = num_nodes ?g2"
    using nd1 by simp
  have h2: "map_of (ndata ?g2) ''h'' = Some h"
    by (simp add: map_of_update)
  have ms2: "msgs ?g2 = map (\<lambda>e. (edge_dst ?g2 ! e, [(''m'', h ! (edge_src ?g2 ! e))]))
                         [0..<length (edge_src ?g2)]"
    by simp
  have "recv ?g2 (nodes ?g2) reduce_sum
        = Inr (?g2\<lparr>ndata := AList.update ''h'' (aggregate ?g2 h) (ndata ?g2), msgs := []\<rparr>)"
    by (rule recv_exercise [OF ve2 nd2 h2 wh ms2])
  moreover have "aggregate ?g2 h = aggregate g h"
    by (rule aggregate_cong) simp_all
  ultimately have s3: "recv ?g2 (nodes ?g2) reduce_sum = Inr ?g3"
    by simp
  have s4: "ndata_pop ?g3 ''h'' = Inr (aggregate g h, g\<lparr>ndata := AList.delete ''h'' (ndata g)\<rparr>)"
    using nomsg by (cases g) (simp add: ndata_pop_def map_of_update delete_update_same)
  show ?thesis
    unfolding GCN_forward_with_def
    by (simp only: lin s1 s2 s3 s4 then_do_def sum.case)
qed





text \<open>
  In the model, where a user-defined function that returns \<open>None\<close> is an error, the
  layer with the functions as the notebook has them raises on a graph that has an edge.
\<close>

lemma stub_layer_raises: "GCN_forward tiny_layer tiny_graph tiny_inputs = Inl UDFResultNotDict"
  by code_simp

text \<open>
  C2 (as amended). The notebook states the normalizer \<open>c_ij = sqrt (d_i * d_j)\<close> as an
  exercise and does not implement it: after the exercise cell and the last cell the
  message function is the one whose body is \<open>pass\<close>, and it returns no message,
  normalized or not, on any batch of edges.
\<close>

theorem normalizer_not_implemented:
  "bound_message (normalizer_cell (exercise_cell ns)) = gcn_message \<and>
   \<not> carries (bound_message (normalizer_cell (exercise_cell ns)) batch) t"
  by (simp add: normalizer_cell_def exercise_cell_def carries_def gcn_message_def)

text \<open>
  C2 as stated: on the three edges of the small graph the message function does not
  return the source features divided by \<open>c_ij\<close>.
\<close>

theorem no_normalized_message_counterexample:
  "\<not> carries (gcn_message tiny_batch) (normalized_messages (tiny_graph\<lparr>ndata := [(''h'', tiny_h)]\<rparr>) tiny_h)"
  by (simp add: carries_def gcn_message_def)

section \<open>The two-layer network\<close>


text \<open>
  With the functions of the exercise, on a well-formed graph that has no feature named
  \<open>h\<close>, the network returns the aggregation of the second linear layer applied to the
  \<open>relu\<close> of the aggregation of the first, and the graph is as before.
\<close>

lemma two_layers_exercise:
  assumes wf: "well_formed g" and noh: "''h'' \<notin> fst ` set (ndata g)"
    and rows: "length inputs = num_nodes g"
    and lin1: "Linear_forward (linear (gcn1 n)) inputs = Inr h1"
    and lin2: "Linear_forward (linear (gcn2 n)) (relu (aggregate g h1)) = Inr h2"
  shows "Net_forward_with message_source_h reduce_sum n g inputs = Inr (aggregate g h2, g)"
proof -
  have same: "g\<lparr>ndata := AList.delete ''h'' (ndata g)\<rparr> = g"
    using noh by (simp add: delete_id)
  have a: "GCN_forward_with message_source_h reduce_sum (gcn1 n) g inputs = Inr (aggregate g h1, g)"
    using forward_exercise [OF wf rows lin1] same by simp
  have "length (relu (aggregate g h1)) = num_nodes g"
    by (simp add: relu_def aggregate_def)
  from forward_exercise [OF wf this lin2] same
  have b: "GCN_forward_with message_source_h reduce_sum (gcn2 n) g (relu (aggregate g h1))
           = Inr (aggregate g h2, g)"
    by simp
  show ?thesis
    by (simp add: Net_forward_with_def a b then_do_def)
qed

section \<open>The training loop\<close>





















end
